theory Spec2Isabelle
  imports Main "HOL-Library.Word"
begin

unbundle bit_operations_syntax

section \<open>Continuation chaining\<close>

subsection \<open>Observable effects\<close>

text \<open>
  The continuation sketch has return type \<^verbatim>\<open>void\<close> everywhere it is instantiated: what a
  call of \<^verbatim>\<open>andThen\<close> does is the sequence of effects it performs before it returns. A call is
  therefore modelled by the list of its events, in program order:
  \<^item> \<open>Out s\<close>, \<open>OutInt i\<close>, \<open>OutThreadId\<close>: a string, an \<^verbatim>\<open>int\<close>, the value of
    \<^verbatim>\<open>std::this_thread::get_id()\<close> written to \<^verbatim>\<open>std::cout\<close> (\<^verbatim>\<open>std::endl\<close> is the newline);
  \<^item> \<open>Sleep n\<close>: \<^verbatim>\<open>std::this_thread::sleep_for(std::chrono::seconds(n))\<close>;
  \<^item> \<open>Spawn body\<close>: a \<^verbatim>\<open>std::thread\<close> is started and detached; \<open>body\<close> is what that thread
    does. The thread that spawned it goes on with the events after \<open>Spawn\<close> without waiting;
  \<^item> \<open>Call v\<close>: the continuation handed in by the caller of the whole chain is invoked with
    \<open>v\<close>. A continuation is any function from its argument to the events it performs; the one
    that does nothing but record its invocation is \<open>probe\<close>;
  \<^item> \<open>Cut\<close>: the end of the observed part of a chain that runs forever (only \<open>Loop\<close>).
\<close>

datatype 'a event =
    Out string
  | OutInt int
  | OutThreadId
  | Sleep nat
  | Spawn "'a event list"
  | Call 'a
  | Cut

type_synonym 'a trace = "'a event list"

definition probe :: "'a \<Rightarrow> 'a trace" where
  "probe v = [Call v]"

text \<open>
  Observations of a trace. \<open>calls t\<close> lists the invocations of the final continuation in
  \<open>t\<close>, each with the number of spawned threads it is nested in (0: on the thread that drove
  the chain; \<open>d\<close>: after \<open>d\<close> asynchronous units of work, on the thread of the last one).
  \<open>units t\<close> counts the asynchronous units of work started anywhere in \<open>t\<close>. \<open>own t\<close> keeps
  what the driving thread itself does, \<open>spawned t\<close> the bodies of the threads it starts.
  \<open>cuts t\<close> counts the places where observation of a still running chain stops.
\<close>

fun calls_ev :: "'a event \<Rightarrow> (nat \<times> 'a) list" and calls :: "'a trace \<Rightarrow> (nat \<times> 'a) list" where
  "calls_ev (Call v) = [(0, v)]"
| "calls_ev (Spawn body) = map (\<lambda>(d, v). (Suc d, v)) (calls body)"
| "calls_ev (Out s) = []"
| "calls_ev (OutInt i) = []"
| "calls_ev OutThreadId = []"
| "calls_ev (Sleep n) = []"
| "calls_ev Cut = []"
| "calls [] = []"
| "calls (e # t) = calls_ev e @ calls t"

fun units_ev :: "'a event \<Rightarrow> nat" and units :: "'a trace \<Rightarrow> nat" where
  "units_ev (Spawn body) = Suc (units body)"
| "units_ev (Call v) = 0"
| "units_ev (Out s) = 0"
| "units_ev (OutInt i) = 0"
| "units_ev OutThreadId = 0"
| "units_ev (Sleep n) = 0"
| "units_ev Cut = 0"
| "units [] = 0"
| "units (e # t) = units_ev e + units t"

fun cuts_ev :: "'a event \<Rightarrow> nat" and cuts :: "'a trace \<Rightarrow> nat" where
  "cuts_ev Cut = 1"
| "cuts_ev (Spawn body) = cuts body"
| "cuts_ev (Call v) = 0"
| "cuts_ev (Out s) = 0"
| "cuts_ev (OutInt i) = 0"
| "cuts_ev OutThreadId = 0"
| "cuts_ev (Sleep n) = 0"
| "cuts [] = 0"
| "cuts (e # t) = cuts_ev e + cuts t"

fun own :: "'a trace \<Rightarrow> 'a trace" where
  "own [] = []"
| "own (Spawn body # t) = Spawn [] # own t"
| "own (e # t) = e # own t"

fun spawned :: "'a trace \<Rightarrow> 'a trace list" where
  "spawned [] = []"
| "spawned (Spawn body # t) = body # spawned t"
| "spawned (e # t) = spawned t"

subsection \<open>The source's classes\<close>

text \<open>
  \<^verbatim>\<open>Continuator<R, A>\<close> is an object with one virtual method
  \<^verbatim>\<open>R andThen(std::function<R(A)> k)\<close>: an object is its method. \<open>'r\<close> stands for everything a
  call of type \<^verbatim>\<open>R\<close> does and returns; for \<^verbatim>\<open>R = void\<close> it is a trace.
\<close>

datatype ('r, 'a) Continuator = Continuator (andThen: "('a \<Rightarrow> 'r) \<Rightarrow> 'r")

text \<open>
  \<^verbatim>\<open>asyncApi\<close>: prints the calling thread, starts a detached thread that prints, sleeps
  three seconds and calls the handler with \<^verbatim>\<open>"Data from async"\<close>, and returns.
\<close>

definition asyncApi :: "(string \<Rightarrow> 'a trace) \<Rightarrow> 'a trace" where
  "asyncApi handler =
     [Out ''called async in thread: '', OutThreadId, Out ''\<newline>'',
      Spawn ([Out ''Started async, sleeping 3secs\<newline>'', Sleep 3]
             @ handler ''Data from async'')]"

definition AsyncApi :: "('a trace, string) Continuator" where
  "AsyncApi = Continuator (\<lambda>k. asyncApi k)"

text \<open>
  \<^verbatim>\<open>Bind<R, A, C>::andThen\<close> copies \<^verbatim>\<open>_rest\<close>, builds the lambda
  \<^verbatim>\<open>[k, rest](A a) { return rest(a)->andThen(k); }\<close> and calls \<^verbatim>\<open>_ktor.andThen(lambda)\<close>.
  It has no \<^verbatim>\<open>return\<close> statement, so it is defined for \<^verbatim>\<open>R = void\<close> only, which is how the
  source instantiates it: its result type is a trace.
\<close>

definition Bind ::
  "('v trace, 'a) Continuator \<Rightarrow> ('a \<Rightarrow> ('v trace, 'a) Continuator) \<Rightarrow> ('v trace, 'a) Continuator"
where
  "Bind ktor rest = Continuator (\<lambda>k.
     let rest' = rest;
         lambda = (\<lambda>a. andThen (rest' a) k)
     in andThen ktor lambda)"

text \<open>\<^verbatim>\<open>Return<R, A>::andThen(k)\<close> is \<^verbatim>\<open>return k(_x);\<close>, for every \<^verbatim>\<open>R\<close>.\<close>

definition Return :: "'a \<Rightarrow> ('r, 'a) Continuator" where
  "Return x = Continuator (\<lambda>k. k x)"

text \<open>
  \<^verbatim>\<open>LoopN(s, n)\<close>: prints its fields, then binds \<^verbatim>\<open>AsyncApi\<close> to the lambda that answers
  \<^verbatim>\<open>LoopN(s, n - 1)\<close> when \<^verbatim>\<open>n > 0\<close> and \<^verbatim>\<open>Return("Done!")\<close> otherwise. \<^verbatim>\<open>n\<close> is an
  \<^verbatim>\<open>int\<close>; \<^verbatim>\<open>n - 1\<close> is only computed for \<^verbatim>\<open>n > 0\<close> and cannot overflow.
\<close>

function LoopN :: "string \<Rightarrow> int \<Rightarrow> ('a trace, string) Continuator" where
  "LoopN s n = Continuator (\<lambda>k.
     [Out ''[LoopN::andThen] '', Out s, Out '' '', OutInt n, Out ''\<newline>''] @
     andThen (Bind AsyncApi
                (\<lambda>s'. if n > 0 then LoopN s' (n - 1) else Return ''Done!'')) k)"
  by pat_completeness auto
termination
  by (relation "measure (\<lambda>(s, n). nat n)") auto

text \<open>
  \<^verbatim>\<open>Loop(s)\<close>: prints its field, then binds \<^verbatim>\<open>AsyncApi\<close> to the lambda that answers a new
  \<^verbatim>\<open>Loop\<close>. Every call of \<^verbatim>\<open>Loop::andThen\<close> returns, but each spawned thread activates the
  next \<^verbatim>\<open>Loop\<close>, without end: the chain has no finite trace. \<open>Loop fuel s\<close> is \<^verbatim>\<open>Loop(s)\<close>
  observed for its first \<open>fuel\<close> activations; the activation after those is \<open>Cut\<close>.
\<close>

fun Loop :: "nat \<Rightarrow> string \<Rightarrow> ('a trace, string) Continuator" where
  "Loop 0 s = Continuator (\<lambda>k. [Cut])"
| "Loop (Suc fuel) s = Continuator (\<lambda>k.
     [Out ''Loop::andThen: '', Out s, Out ''\<newline>''] @
     andThen (Bind AsyncApi (\<lambda>k'. Loop fuel k')) k)"

text \<open>
  \<^verbatim>\<open>myAsyncHandler\<close>, the continuation \<^verbatim>\<open>main\<close> passes: it prints its argument and the thread
  it runs on.
\<close>

definition myAsyncHandler :: "string \<Rightarrow> 'a trace" where
  "myAsyncHandler s =
     [Out ''called me back with: \"'', Out s, Out ''\" in thread: '', OutThreadId,
      Out ''\<newline>'']"

text \<open>
  The chains made of \<^verbatim>\<open>Return\<close>, \<^verbatim>\<open>AsyncApi\<close> and \<^verbatim>\<open>Bind\<close> objects only, as syntax trees, and
  the object each one denotes.
\<close>

datatype chain = Return_step string | AsyncApi_step | Bind_step chain "string \<Rightarrow> chain"

primrec build :: "chain \<Rightarrow> ('a trace, string) Continuator" where
  "build (Return_step v) = Return v"
| "build AsyncApi_step = AsyncApi"
| "build (Bind_step c next) = Bind (build c) (\<lambda>a. build (next a))"

section \<open>Register access policies\<close>

text \<open>
  \<^verbatim>\<open>unsigned\<close> is a 32-bit word. The policies get a pointer to the register; the model
  takes the register's content and, for a write, answers the new content. Shifting a 32-bit
  value by 32 or more is undefined in C++: the model answers \<open>None\<close> there.
\<close>

type_synonym unsigned = "32 word"

text \<open>\<^verbatim>\<open>ro_t::read\<close>: \<^verbatim>\<open>return (*reg >> offset) & mask;\<close>\<close>

definition ro_t_read :: "unsigned \<Rightarrow> unsigned \<Rightarrow> unsigned \<Rightarrow> unsigned option" where
  "ro_t_read reg msk offset =
     (if unat offset < 32 then Some (drop_bit (unat offset) reg AND msk) else None)"

text \<open>\<^verbatim>\<open>rw_t::write\<close>: \<^verbatim>\<open>*reg = (*reg & ~(mask << offset)) | ((value & mask) << offset);\<close>\<close>

definition rw_t_write :: "unsigned \<Rightarrow> unsigned \<Rightarrow> unsigned \<Rightarrow> unsigned \<Rightarrow> unsigned option" where
  "rw_t_write reg msk offset val =
     (if unat offset < 32
      then Some ((reg AND NOT (push_bit (unat offset) msk))
                 OR push_bit (unat offset) (val AND msk))
      else None)"

text \<open>The bits of the register that the field \<^verbatim>\<open>mask << offset\<close> covers.\<close>

definition field :: "unsigned \<Rightarrow> unsigned \<Rightarrow> unsigned" where
  "field msk offset = push_bit (unat offset) msk"

text \<open>
  \<^verbatim>\<open>rw_t::write(&r, mask, offset, value)\<close> followed by \<^verbatim>\<open>ro_t::read(&r, mask, offset)\<close> on
  the same register: what the read returns.
\<close>

definition write_then_read ::
  "unsigned \<Rightarrow> unsigned \<Rightarrow> unsigned \<Rightarrow> unsigned \<Rightarrow> unsigned option"
where
  "write_then_read reg msk offset val =
     Option.bind (rw_t_write reg msk offset val) (\<lambda>reg'. ro_t_read reg' msk offset)"

section \<open>Directives\<close>

text \<open>
  A \<^verbatim>\<open>Message\<close> has three fields (\<^verbatim>\<open>id\<close> is \<open>id_u64\<close> here). Messages are passed and
  returned by reference, so they live in a store, addressed by \<open>ref\<close>. A directive keeps a
  \<^verbatim>\<open>const&\<close> to its value: a \<open>cref\<close> is read through the store at the moment it is used
  (\<open>lit v\<close> for a reference to a value outside the store, such as a temporary).
\<close>

record Message =
  destination :: string
  source :: string
  id_u64 :: "64 word"

definition Message_init :: Message where
  "Message_init = \<lparr>destination = ''empty'', source = ''empty'', id_u64 = 0\<rparr>"

type_synonym ref = nat
type_synonym store = "ref \<Rightarrow> Message"
type_synonym 'a cref = "store \<Rightarrow> 'a"
type_synonym directive = "ref \<Rightarrow> store \<Rightarrow> ref \<times> store"

definition lit :: "'a \<Rightarrow> 'a cref" where
  "lit v = (\<lambda>st. v)"

text \<open>
  The function objects: \<^verbatim>\<open>operator()\<close> assigns one field of its input and returns the
  input.
\<close>

definition destination_directive :: "string cref \<Rightarrow> directive" where
  "destination_directive val input st =
     (input, st(input := (st input)\<lparr>destination := val st\<rparr>))"

definition source_directive :: "string cref \<Rightarrow> directive" where
  "source_directive val input st =
     (input, st(input := (st input)\<lparr>source := val st\<rparr>))"

definition id_directive :: "64 word cref \<Rightarrow> directive" where
  "id_directive val input st =
     (input, st(input := (st input)\<lparr>id_u64 := val st\<rparr>))"

text \<open>
  The factory functions \<^verbatim>\<open>destination\<close>, \<^verbatim>\<open>source\<close> and \<^verbatim>\<open>id\<close> (named \<open>_fn\<close> here,
  their names being those of the fields).
\<close>

definition destination_fn :: "string cref \<Rightarrow> directive" where
  "destination_fn val = destination_directive val"

definition source_fn :: "string cref \<Rightarrow> directive" where
  "source_fn val = source_directive val"

definition id_fn :: "64 word cref \<Rightarrow> directive" where
  "id_fn val = id_directive val"

text \<open>\<^verbatim>\<open>operator<<(Message& msg, const Directive& directive)\<close>: \<^verbatim>\<open>return directive(msg);\<close>\<close>

definition operator_shl :: "ref \<Rightarrow> directive \<Rightarrow> store \<Rightarrow> ref \<times> store" where
  "operator_shl msg directive st = directive msg st"

text \<open>\<^verbatim>\<open>msg << d1 << d2\<close> is \<^verbatim>\<open>operator<<(operator<<(msg, d1), d2)\<close>.\<close>

definition shl2 :: "ref \<Rightarrow> directive \<Rightarrow> directive \<Rightarrow> store \<Rightarrow> ref \<times> store" where
  "shl2 msg d1 d2 st = (case operator_shl msg d1 st of (r, st') \<Rightarrow> operator_shl r d2 st')"

section \<open>Properties of the continuation chain\<close>

subsection \<open>Observations of the classes\<close>

lemma calls_append: "calls (t @ u) = calls t @ calls u"
  by (induction t) simp_all

lemma units_append: "units (t @ u) = units t + units u"
  by (induction t) simp_all

lemma cuts_append: "cuts (t @ u) = cuts t + cuts u"
  by (induction t) simp_all

lemma andThen_Return: "andThen (Return x) k = k x"
  by (simp add: Return_def)

lemma andThen_Bind: "andThen (Bind ktor rest) k = andThen ktor (\<lambda>a. andThen (rest a) k)"
  by (simp add: Bind_def)

lemma andThen_AsyncApi: "andThen AsyncApi k = asyncApi k"
  by (simp add: AsyncApi_def)

lemma calls_asyncApi:
  "calls (asyncApi h) = map (\<lambda>(d, v). (Suc d, v)) (calls (h ''Data from async''))"
  by (simp add: asyncApi_def calls_append)

lemma units_asyncApi: "units (asyncApi h) = Suc (units (h ''Data from async''))"
  by (simp add: asyncApi_def units_append)

lemma cuts_asyncApi: "cuts (asyncApi h) = cuts (h ''Data from async'')"
  by (simp add: asyncApi_def cuts_append)

declare LoopN.simps [simp del]

text \<open>One activation of \<^verbatim>\<open>LoopN\<close>, with \<^verbatim>\<open>Bind\<close>, \<^verbatim>\<open>AsyncApi\<close> and \<^verbatim>\<open>Return\<close> unfolded.\<close>

lemma andThen_LoopN:
  "andThen (LoopN s n) k =
     [Out ''[LoopN::andThen] '', Out s, Out '' '', OutInt n, Out ''\<newline>''] @
     asyncApi (\<lambda>s'. if n > 0 then andThen (LoopN s' (n - 1)) k else k ''Done!'')"
proof -
  have "(\<lambda>a. andThen (if 0 < n then LoopN a (n - 1) else Return ''Done!'') k)
        = (\<lambda>s'. if n > 0 then andThen (LoopN s' (n - 1)) k else k ''Done!'')"
    by (rule ext) (simp add: andThen_Return)
  then show ?thesis
    by (subst LoopN.simps) (simp add: andThen_Bind andThen_AsyncApi)
qed

lemma LoopN_calls:
  "calls (andThen (LoopN s n) k) = map (\<lambda>(d, v). (d + nat n + 1, v)) (calls (k ''Done!''))"
proof (induction "nat n" arbitrary: n s)
  case 0
  then have "\<not> n > 0" by simp
  then show ?case
    by (simp add: andThen_LoopN calls_asyncApi)
next
  case (Suc m)
  then have pos: "n > 0" and m: "m = nat (n - 1)" by simp_all
  have "calls (andThen (LoopN s n) k) =
        map (\<lambda>(d, v). (Suc d, v)) (calls (andThen (LoopN ''Data from async'' (n - 1)) k))"
    using pos by (simp add: andThen_LoopN calls_asyncApi)
  also have "\<dots> = map (\<lambda>(d, v). (Suc d, v))
                     (map (\<lambda>(d, v). (d + nat (n - 1) + 1, v)) (calls (k ''Done!'')))"
    using Suc.hyps(1) [OF m] by simp
  also have "\<dots> = map (\<lambda>(d, v). (d + nat n + 1, v)) (calls (k ''Done!''))"
    using pos by (simp add: case_prod_unfold nat_diff_distrib')
  finally show ?case .
qed

lemma LoopN_units:
  "units (andThen (LoopN s n) k) = nat n + 1 + units (k ''Done!'')"
proof (induction "nat n" arbitrary: n s)
  case 0
  then have "\<not> n > 0" by simp
  then show ?case
    by (simp add: andThen_LoopN units_asyncApi)
next
  case (Suc m)
  then have pos: "n > 0" and m: "m = nat (n - 1)" by simp_all
  have "units (andThen (LoopN s n) k) =
        Suc (units (andThen (LoopN ''Data from async'' (n - 1)) k))"
    using pos by (simp add: andThen_LoopN units_asyncApi)
  also have "\<dots> = Suc (nat (n - 1) + 1 + units (k ''Done!''))"
    using Suc.hyps(1) [OF m] by simp
  also have "\<dots> = nat n + 1 + units (k ''Done!'')"
    using pos by (simp add: nat_diff_distrib')
  finally show ?case .
qed

lemma Loop_calls: "calls (andThen (Loop fuel s) k) = []"
  by (induction fuel arbitrary: s) (simp_all add: andThen_Bind andThen_AsyncApi calls_asyncApi)

lemma Loop_units: "units (andThen (Loop fuel s) k) = fuel"
  by (induction fuel arbitrary: s) (simp_all add: andThen_Bind andThen_AsyncApi units_asyncApi)

lemma Loop_cuts: "cuts (andThen (Loop fuel s) k) = 1"
  by (induction fuel arbitrary: s) (simp_all add: andThen_Bind andThen_AsyncApi cuts_asyncApi)

lemma Loop_indep: "andThen (Loop fuel s) k = andThen (Loop fuel s) k'"
  by (induction fuel arbitrary: s) (simp_all add: andThen_Bind andThen_AsyncApi asyncApi_def)

lemma build_calls:
  "(\<And>a. length (calls (k a)) = m) \<Longrightarrow> length (calls (andThen (build c) k)) = m"
proof (induction c arbitrary: k)
  case (Return_step v)
  then show ?case by (simp add: andThen_Return)
next
  case AsyncApi_step
  then show ?case by (simp add: andThen_AsyncApi calls_asyncApi)
next
  case (Bind_step c nxt)
  have "\<And>a. length (calls (andThen (build (nxt a)) k)) = m"
    using Bind_step.IH(2) Bind_step.prems by (simp add: rangeI)
  then show ?case
    using Bind_step.IH(1) by (simp add: andThen_Bind)
qed

subsection \<open>The claims\<close>

text \<open>
  C1. The composition law: for every predecessor \<open>S\<close>, continuation-step function \<open>next\<close> and
  continuation \<open>k\<close>, driving \<open>Bind S next\<close> with \<open>k\<close> is driving \<open>S\<close> with the continuation that
  takes the predecessor's result \<open>a\<close>, builds \<open>next a\<close> and drives it with \<open>k\<close>.
\<close>

theorem Bind_composition_law:
  "andThen (Bind S next) k = andThen S (\<lambda>a. andThen (next a) k)"
  by (simp add: Bind_def)

text \<open>
  The claim C2 as the spec words it fails already at \<open>n = 0\<close>: \<^verbatim>\<open>LoopN\<close> issues its asynchronous
  call before it looks at \<open>n\<close>, so \<^verbatim>\<open>LoopN("Loop: ", 0)\<close> performs one asynchronous unit of work
  and invokes the continuation on that unit's thread, not at once; and the chain that
  \<^verbatim>\<open>main\<close> drives, \<^verbatim>\<open>LoopN("Loop: ", 4).andThen(myAsyncHandler())\<close>, performs five units.
\<close>

theorem LoopN_zero_counterexample:
  "units (andThen (LoopN ''Loop: '' 0) probe) \<noteq> 0
   \<and> calls (andThen (LoopN ''Loop: '' 0) probe) \<noteq> [(0, ''Done!'')]
   \<and> units (andThen (LoopN ''Loop: '' 4) (myAsyncHandler :: string \<Rightarrow> string trace)) \<noteq> 4"
  by (simp add: andThen_LoopN units_asyncApi calls_asyncApi probe_def myAsyncHandler_def)

text \<open>
  C2, amended. For every \<open>n \<ge> 0\<close> and continuation \<open>k\<close>, driving \<^verbatim>\<open>LoopN\<close> with bound \<open>n\<close> invokes
  \<open>k\<close> exactly once, with \<^verbatim>\<open>"Done!"\<close>, after exactly \<open>n + 1\<close> asynchronous units of work: the only
  invocation recorded by \<open>probe\<close> is nested in \<open>n + 1\<close> threads, and for any \<open>k\<close> the trace is
  \<open>n + 1\<close> units around one run of \<open>k ''Done!''\<close>. For \<open>n = 0\<close> that is one unit, not none.
\<close>

theorem LoopN_invokes_once:
  "0 \<le> n \<Longrightarrow>
     calls (andThen (LoopN s n) probe) = [(nat n + 1, ''Done!'')]
   \<and> units (andThen (LoopN s n) probe) = nat n + 1
   \<and> calls (andThen (LoopN s n) k) = map (\<lambda>(d, v). (d + nat n + 1, v)) (calls (k ''Done!''))
   \<and> units (andThen (LoopN s n) k) = nat n + 1 + units (k ''Done!'')"
  by (simp add: LoopN_calls LoopN_units probe_def)

theorem LoopN_invokes_once_witness:
  "(0::int) \<le> 3
   \<and> calls (andThen (LoopN ''Loop: '' 3) probe) = [(4, ''Done!'')]
   \<and> units (andThen (LoopN ''Loop: '' 3) probe) = 4"
  using LoopN_invokes_once [of 3 "''Loop: ''" probe] by simp

text \<open>
  C3. For every chain built from \<^verbatim>\<open>Return\<close>, \<^verbatim>\<open>AsyncApi\<close> and \<^verbatim>\<open>Bind\<close> steps and driven once, the
  final continuation is invoked exactly once, and so is the continuation of every step: a
  chain driven with \<open>probe\<close> records one invocation, and driven with any continuation \<open>k\<close> that
  records \<open>m\<close> invocations each time it runs, it records \<open>m\<close> of them, so it runs \<open>k\<close> once.
\<close>

theorem chain_invokes_once:
  "length (calls (andThen (build c) probe)) = 1
   \<and> ((\<forall>a. length (calls (k a)) = m) \<longrightarrow> length (calls (andThen (build c) k)) = m)"
proof -
  have "length (calls (andThen (build c) probe)) = 1"
    by (rule build_calls) (simp add: probe_def)
  moreover have "(\<forall>a. length (calls (k a)) = m) \<longrightarrow> length (calls (andThen (build c) k)) = m"
    by (simp add: build_calls)
  ultimately show ?thesis by simp
qed

theorem chain_invokes_once_witness:
  "length (calls (andThen (build (Bind_step (Bind_step AsyncApi_step Return_step) (\<lambda>a. AsyncApi_step)))
                    (\<lambda>a. probe a @ probe a))) = 2"
  using chain_invokes_once [of "Bind_step (Bind_step AsyncApi_step Return_step) (\<lambda>a. AsyncApi_step)"
                               "\<lambda>a. probe a @ probe a" 2]
  by (simp add: probe_def)

text \<open>
  C4. For every value \<open>v\<close> and continuation \<open>k\<close>, driving \<^verbatim>\<open>Return\<close> of \<open>v\<close> with \<open>k\<close> is the call
  \<open>k v\<close> and nothing else, whatever \<open>k\<close> does and returns: \<open>k\<close> is invoked once, with \<open>v\<close>, on
  the calling thread (nested in no spawned thread, no asynchronous unit started), and the
  result of \<open>k\<close> is returned.
\<close>

theorem Return_andThen:
  "andThen (Return v) k = k v
   \<and> andThen (Return v) (\<lambda>a. (probe a, f a)) = ([Call v], f v)
   \<and> calls (andThen (Return v) probe) = [(0, v)]
   \<and> units (andThen (Return v) probe) = 0"
  by (simp add: Return_def probe_def)

text \<open>
  C5. \<^verbatim>\<open>Bind\<close> is associative: for every step \<open>S\<close>, continuation-step functions \<open>f\<close> and \<open>g\<close> and
  final continuation \<open>k\<close>, driving \<open>Bind (Bind S f) g\<close> and driving
  \<open>Bind S (\<lambda>a. Bind (f a) g)\<close> perform the same events, among them the same invocations of \<open>k\<close>.
\<close>

theorem Bind_assoc:
  "andThen (Bind (Bind S f) g) k = andThen (Bind S (\<lambda>a. Bind (f a) g)) k"
  by (simp add: Bind_def)

text \<open>
  C6. The unbounded \<^verbatim>\<open>Loop\<close> never invokes its continuation: observed for any number \<open>fuel\<close> of
  activations, it has performed \<open>fuel\<close> asynchronous units of work, has invoked \<open>k\<close> not once,
  does the same whatever \<open>k\<close> is, and is still running.
\<close>

theorem Loop_never_invokes:
  "calls (andThen (Loop fuel s) k) = []
   \<and> units (andThen (Loop fuel s) k) = fuel
   \<and> cuts (andThen (Loop fuel s) k) = 1
   \<and> andThen (Loop fuel s) k = andThen (Loop fuel s) k'"
  using Loop_calls [of fuel s k] Loop_units [of fuel s k] Loop_cuts [of fuel s k]
    Loop_indep [of fuel s k k']
  by simp

text \<open>
  C7. For every continuation \<open>k\<close>, driving \<^verbatim>\<open>Bind(Return(5), x -> Return(x * 2))\<close> with \<open>k\<close> is
  the call \<open>k 10\<close>: \<open>k\<close> is invoked exactly once, with 10.
\<close>

theorem Bind_Return_scenario:
  "andThen (Bind (Return (5::int)) (\<lambda>x. Return (x * 2))) k = k 10
   \<and> calls (andThen (Bind (Return (5::int)) (\<lambda>x. Return (x * 2))) probe) = [(0, 10)]"
  by (simp add: Bind_def Return_def probe_def)

text \<open>
  C8. For every continuation \<open>k\<close>, driving \<^verbatim>\<open>AsyncApi\<close> starts the asynchronous operation and
  returns without waiting for it: the calling thread only prints and spawns a detached thread,
  whatever \<open>k\<close> is; \<open>k\<close> is invoked later, once, with \<^verbatim>\<open>"Data from async"\<close>, on the spawned
  thread after its sleep, not on the thread that called \<^verbatim>\<open>andThen\<close>.
\<close>

theorem AsyncApi_andThen:
  "own (andThen AsyncApi k)
     = [Out ''called async in thread: '', OutThreadId, Out ''\<newline>'', Spawn []]
   \<and> spawned (andThen AsyncApi k)
     = [[Out ''Started async, sleeping 3secs\<newline>'', Sleep 3] @ k ''Data from async'']
   \<and> calls (andThen AsyncApi k) = map (\<lambda>(d, v). (Suc d, v)) (calls (k ''Data from async''))
   \<and> calls (andThen AsyncApi probe) = [(1, ''Data from async'')]"
  by (simp add: andThen_AsyncApi calls_asyncApi probe_def) (simp add: asyncApi_def)

section \<open>Properties of the register policies\<close>

lemma field_read:
  fixes r m v :: "32 word"
  shows "drop_bit n ((r AND NOT (push_bit n m)) OR push_bit n (v AND m)) AND m
         = v AND drop_bit n (push_bit n m)"
  by (rule bit_word_eqI) (auto simp add: bit_simps)

lemma field_frame:
  fixes r m v :: "32 word"
  shows "((r AND NOT (push_bit n m)) OR push_bit n (v AND m)) AND NOT (push_bit n m)
         = r AND NOT (push_bit n m)"
  by (rule bit_word_eqI) (auto simp add: bit_simps)

text \<open>
  The claim C9 as worded fails when the mask does not fit above the offset: with mask
  \<^verbatim>\<open>0xFFFFFFFF\<close> and offset 8, the top eight bits of the value are shifted out by the write,
  and the read gives 0 for the value \<^verbatim>\<open>0xFF000000\<close>.
\<close>

theorem write_then_read_counterexample:
  "write_then_read 0 0xFFFFFFFF 8 0xFF000000 \<noteq> Some (0xFF000000 AND 0xFFFFFFFF)"
  by (simp add: write_then_read_def rw_t_write_def ro_t_read_def)

text \<open>
  C9, amended. For every register value \<open>r\<close>, mask, value \<open>v\<close> and offset below 32, after
  \<^verbatim>\<open>rw_t::write\<close> the read \<^verbatim>\<open>ro_t::read\<close> returns \<open>v\<close> masked with the part of the mask that stays
  in the register, \<^verbatim>\<open>(mask << offset) >> offset\<close>; that is \<^verbatim>\<open>v & mask\<close> whenever no bit of the
  mask is shifted out. Every bit of \<open>r\<close> outside the field \<^verbatim>\<open>mask << offset\<close> is unchanged by
  the write.
\<close>

theorem write_then_read_field:
  assumes "unat offset < 32"
  shows "write_then_read r msk offset v
           = Some (v AND drop_bit (unat offset) (field msk offset))
       \<and> (drop_bit (unat offset) (field msk offset) = msk \<longrightarrow>
            write_then_read r msk offset v = Some (v AND msk))
       \<and> map_option (\<lambda>r'. r' AND NOT (field msk offset)) (rw_t_write r msk offset v)
           = Some (r AND NOT (field msk offset))"
proof -
  let ?n = "unat offset"
  let ?r' = "(r AND NOT (push_bit ?n msk)) OR push_bit ?n (v AND msk)"
  have w: "rw_t_write r msk offset v = Some ?r'"
    using assms unfolding rw_t_write_def by (rule if_P)
  have rd: "ro_t_read ?r' msk offset = Some (drop_bit ?n ?r' AND msk)"
    using assms unfolding ro_t_read_def by (rule if_P)
  have rt: "write_then_read r msk offset v = Some (v AND drop_bit ?n (field msk offset))"
    unfolding write_then_read_def w field_def bind.simps rd field_read ..
  have frame: "map_option (\<lambda>r'. r' AND NOT (field msk offset)) (rw_t_write r msk offset v)
                 = Some (r AND NOT (field msk offset))"
    unfolding w field_def option.map field_frame ..
  from rt frame show ?thesis by simp
qed

theorem write_then_read_field_witness:
  "unat (8 :: unsigned) < 32
   \<and> drop_bit (unat (8 :: unsigned)) (field 0xF 8) = 0xF
   \<and> write_then_read 0x12345678 0xF 8 0xAB = Some 0xB
   \<and> rw_t_write 0x12345678 0xF 8 0xAB = Some 0x12345B78"
  using write_then_read_field [of 8 "0x12345678" "0xF" "0xAB"]
  by (simp add: rw_t_write_def field_def)

section \<open>Properties of the directives\<close>

text \<open>
  C10. For every message \<open>m\<close> and string \<open>s\<close>, \<^verbatim>\<open>m << destination(s)\<close> returns a reference to \<open>m\<close>
  and changes the store at \<open>m\<close> only, and there only the field \<^verbatim>\<open>destination\<close>, which becomes
  \<open>s\<close>; \<^verbatim>\<open>source\<close> and \<^verbatim>\<open>id\<close> keep their values. Chained directives apply from left to right
  to that same object.
\<close>

theorem destination_frame:
  "operator_shl m (destination_fn s) st = (m, st(m := (st m)\<lparr>destination := s st\<rparr>))
   \<and> destination (snd (operator_shl m (destination_fn s) st) m) = s st
   \<and> source (snd (operator_shl m (destination_fn s) st) m) = source (st m)
   \<and> id_u64 (snd (operator_shl m (destination_fn s) st) m) = id_u64 (st m)
   \<and> shl2 m (source_fn a) (destination_fn s) st
       = (m, st(m := (st m)\<lparr>source := a st,
                              destination := s (st(m := (st m)\<lparr>source := a st\<rparr>))\<rparr>))"
  by (simp add: operator_shl_def shl2_def destination_fn_def destination_directive_def
        source_fn_def source_directive_def)

end
